theory Spec2Isabelle
  imports Complex_Main
begin

section \<open>Tensors, errors and the torch operations the decoder uses\<close>

text \<open>
  A tensor is a rectangular nested list of real numbers: a vector is a \<open>real list\<close>, a
  matrix of shape (rows, cols) a list of rows, a tensor of shape (batch, slots, dim) a list
  of matrices.  The size of a dimension is the length of the list at that depth.  Numbers
  are the reals: rounding, overflow and NaN of the 32-bit floats are outside the model.
  Every exception of the Python code is a value \<open>Inl e\<close> of the result type.
\<close>

datatype error = ShapeError | IndexError | TypeError | UnboundLocalError | FileNotFoundError | PermissionError

type_synonym vec = "real list"
type_synonym mat = "real list list"
type_synonym tensor3 = "real list list list"

text \<open>Sequencing: the first exception ends the computation.\<close>

definition bindE :: "error + 'a \<Rightarrow> ('a \<Rightarrow> error + 'b) \<Rightarrow> error + 'b" where
  "bindE m f = (case m of Inl e \<Rightarrow> Inl e | Inr x \<Rightarrow> f x)"

text \<open>Running a fallible function over a list stops at the first exception.\<close>

fun mapE :: "('a \<Rightarrow> error + 'b) \<Rightarrow> 'a list \<Rightarrow> error + 'b list" where
  "mapE f [] = Inr []"
| "mapE f (x # xs) =
     bindE (f x) (\<lambda>y. bindE (mapE f xs) (\<lambda>ys. Inr (y # ys)))"

text \<open>
  \<open>nn.Linear(in_features, out_features)\<close>: a weight matrix of shape
  (out_features, in_features) and a bias of length out_features.  The entries are learned,
  so they are arbitrary functions of the indices; the shape is fixed by the two sizes.
  Applied to a vector whose length is not in_features the layer raises.
\<close>

record linear =
  in_features :: nat
  out_features :: nat
  weight :: "nat \<Rightarrow> nat \<Rightarrow> real"
  bias :: "nat \<Rightarrow> real"

definition Linear :: "nat \<Rightarrow> nat \<Rightarrow> (nat \<Rightarrow> nat \<Rightarrow> real) \<Rightarrow> (nat \<Rightarrow> real) \<Rightarrow> linear" where
  "Linear n_in n_out w b = \<lparr>in_features = n_in, out_features = n_out, weight = w, bias = b\<rparr>"

definition linear_out :: "linear \<Rightarrow> vec \<Rightarrow> vec" where
  "linear_out L x =
     map (\<lambda>i. (\<Sum>j\<leftarrow>[0..<in_features L]. weight L i j * x ! j) + bias L i) [0..<out_features L]"

definition linear_vec :: "linear \<Rightarrow> vec \<Rightarrow> error + vec" where
  "linear_vec L x = (if length x \<noteq> in_features L then Inl ShapeError else Inr (linear_out L x))"

definition linear_mat :: "linear \<Rightarrow> mat \<Rightarrow> error + mat" where
  "linear_mat L m = mapE (linear_vec L) m"

definition linear_t3 :: "linear \<Rightarrow> tensor3 \<Rightarrow> error + tensor3" where
  "linear_t3 L t = mapE (linear_mat L) t"

text \<open>
  Broadcasting of one dimension, as torch does it for \<open>+\<close> and \<open>*\<close>: equal sizes are
  paired, a size of 1 is repeated along the other operand, anything else raises.
\<close>

definition broadcast2 ::
  "('a \<Rightarrow> 'b \<Rightarrow> error + 'c) \<Rightarrow> 'a list \<Rightarrow> 'b list \<Rightarrow> error + 'c list" where
  "broadcast2 f xs ys =
     (if length xs = length ys then mapE (\<lambda>(x, y). f x y) (zip xs ys)
      else if length xs = 1 then mapE (\<lambda>y. f (hd xs) y) ys
      else if length ys = 1 then mapE (\<lambda>x. f x (hd ys)) xs
      else Inl ShapeError)"

definition add_t3 :: "tensor3 \<Rightarrow> tensor3 \<Rightarrow> error + tensor3" where
  "add_t3 = broadcast2 (broadcast2 (broadcast2 (\<lambda>x y. Inr (x + y))))"

definition mul_t3 :: "tensor3 \<Rightarrow> tensor3 \<Rightarrow> error + tensor3" where
  "mul_t3 = broadcast2 (broadcast2 (broadcast2 (\<lambda>x y. Inr (x * y))))"

text \<open>\<open>F.softmax(x, dim=1)\<close> on one example of shape (slots, k): each column is normalised.\<close>

definition softmax_dim1 :: "mat \<Rightarrow> mat" where
  "softmax_dim1 rows =
     map (\<lambda>r. map (\<lambda>k. exp (r ! k) / (\<Sum>r'\<leftarrow>rows. exp (r' ! k))) [0..<length r]) rows"

text \<open>\<open>torch.sum(x, dim=1)\<close> on one example of shape (slots, k): the sum of the rows.\<close>

definition sum_dim1 :: "mat \<Rightarrow> vec" where
  "sum_dim1 rows =
     map (\<lambda>k. \<Sum>r\<leftarrow>rows. r ! k) [0..<(case rows of [] \<Rightarrow> 0 | r # _ \<Rightarrow> length r)]"

section \<open>BahdanauAttention\<close>

record attention =
  num_features :: nat
  hidden_dim :: nat
  output_dim :: nat
  W_a :: linear
  U_a :: linear
  v_a :: linear

text \<open>
  \<open>BahdanauAttention.__init__\<close>: the constructor receives the three sizes only and
  builds the three layers from them; the learned entries of the layers are the remaining
  arguments.  It looks at no input tensor and has no failing branch.
\<close>

definition BahdanauAttention ::
  "nat \<Rightarrow> nat \<Rightarrow> nat \<Rightarrow> (nat \<Rightarrow> nat \<Rightarrow> real) \<times> (nat \<Rightarrow> real) \<Rightarrow>
   (nat \<Rightarrow> nat \<Rightarrow> real) \<times> (nat \<Rightarrow> real) \<Rightarrow> (nat \<Rightarrow> nat \<Rightarrow> real) \<times> (nat \<Rightarrow> real) \<Rightarrow> attention" where
  "BahdanauAttention nf hdim odim pW pU pv =
     \<lparr>num_features = nf, hidden_dim = hdim, output_dim = odim,
      W_a = Linear nf hdim (fst pW) (snd pW),
      U_a = Linear hdim hdim (fst pU) (snd pU),
      v_a = Linear hdim odim (fst pv) (snd pv)\<rparr>"

text \<open>
  The attention weights leave \<open>forward\<close> through \<open>squeeze(dim=2)\<close>, which removes the
  last dimension when its size is 1 and leaves the tensor as it is otherwise.
\<close>

datatype weights = W2 mat | W3 tensor3

definition squeeze_dim2 :: "nat \<Rightarrow> tensor3 \<Rightarrow> weights" where
  "squeeze_dim2 k t = (if k = 1 then W2 (map (map hd) t) else W3 t)"

text \<open>Line 35, \<open>context = torch.sum(attention_weight * features, dim=1)\<close>.\<close>

definition weighted_context :: "tensor3 \<Rightarrow> tensor3 \<Rightarrow> error + mat" where
  "weighted_context attention_weight features =
     bindE (mul_t3 attention_weight features) (\<lambda>weighted. Inr (map sum_dim1 weighted))"

definition attention_forward :: "attention \<Rightarrow> tensor3 \<Rightarrow> mat \<Rightarrow> error + (mat \<times> weights)" where
  "attention_forward a features hidden_size =
     (let hidden_size1 = map (\<lambda>h. [h]) hidden_size in
      bindE (linear_t3 (W_a a) features) (\<lambda>attention_1.
      bindE (linear_t3 (U_a a) hidden_size1) (\<lambda>attention_2.
      bindE (add_t3 attention_1 attention_2) (\<lambda>s.
      let attention_tan = map (map (map tanh)) s in
      bindE (linear_t3 (v_a a) attention_tan) (\<lambda>attention_score.
      let attention_weight = map softmax_dim1 attention_score in
      bindE (weighted_context attention_weight features) (\<lambda>context.
      Inr (context, squeeze_dim2 (out_features (v_a a)) attention_weight)))))))"

section \<open>DecoderLSTM\<close>

text \<open>
  \<open>nn.LSTMCell(input_size, hidden_size)\<close>: the four gates are read off the sum of two
  affine maps of the input and of the hidden vector, in the order input, forget, cell,
  output.  The batch sizes of the input and of the state must agree.
\<close>

definition sigmoid :: "real \<Rightarrow> real" where
  "sigmoid x = 1 / (1 + exp (- x))"

record lstm_cell =
  cell_hidden :: nat
  W_ih :: linear
  W_hh :: linear

definition LSTMCell ::
  "nat \<Rightarrow> nat \<Rightarrow> (nat \<Rightarrow> nat \<Rightarrow> real) \<times> (nat \<Rightarrow> real) \<Rightarrow> (nat \<Rightarrow> nat \<Rightarrow> real) \<times> (nat \<Rightarrow> real) \<Rightarrow> lstm_cell" where
  "LSTMCell n_in n_hid p_ih p_hh =
     \<lparr>cell_hidden = n_hid,
      W_ih = Linear n_in (4 * n_hid) (fst p_ih) (snd p_ih),
      W_hh = Linear n_hid (4 * n_hid) (fst p_hh) (snd p_hh)\<rparr>"

definition lstm_vec :: "lstm_cell \<Rightarrow> vec \<Rightarrow> vec \<times> vec \<Rightarrow> error + (vec \<times> vec)" where
  "lstm_vec L x hc =
     (let n = cell_hidden L; h = fst hc; c = snd hc in
      bindE (linear_vec (W_ih L) x) (\<lambda>gi.
      bindE (linear_vec (W_hh L) h) (\<lambda>gh.
      if length c \<noteq> n then Inl ShapeError
      else
        let g = map2 (+) gi gh;
            i_gate = map sigmoid (take n g);
            f_gate = map sigmoid (take n (drop n g));
            g_gate = map tanh (take n (drop (2 * n) g));
            o_gate = map sigmoid (take n (drop (3 * n) g));
            c' = map2 (+) (map2 (*) f_gate c) (map2 (*) i_gate g_gate);
            h' = map2 (*) o_gate (map tanh c')
        in Inr (h', c'))))"

definition lstm_forward :: "lstm_cell \<Rightarrow> mat \<Rightarrow> mat \<times> mat \<Rightarrow> error + (mat \<times> mat)" where
  "lstm_forward L x hc =
     (if length (fst hc) \<noteq> length x \<or> length (snd hc) \<noteq> length x then Inl ShapeError
      else bindE (mapE (\<lambda>(xb, hb, cb). lstm_vec L xb (hb, cb)) (zip x (zip (fst hc) (snd hc))))
             (\<lambda>rs. Inr (map fst rs, map snd rs)))"

text \<open>
  The decoder.  \<open>embeddings\<close> is the table of \<open>nn.Embedding(vocab_size, embedding_dim)\<close>,
  read at (token, column).  \<open>drop\<close> is \<open>nn.Dropout\<close>: the identity in evaluation mode,
  and in training mode a random mask, so it is a function of the number of the call as
  well.  A token is a Python integer.
\<close>

record decoder =
  dec_num_features :: nat
  embedding_dim :: nat
  dec_hidden_dim :: nat
  vocab_size :: nat
  sample_temp :: real
  embeddings :: "nat \<Rightarrow> nat \<Rightarrow> real"
  lstm :: lstm_cell
  fc :: linear
  attention :: attention
  drop_layer :: "nat \<Rightarrow> mat \<Rightarrow> mat"
  init_h :: linear
  init_c :: linear

type_synonym params = "(nat \<Rightarrow> nat \<Rightarrow> real) \<times> (nat \<Rightarrow> real)"

text \<open>\<open>DecoderLSTM.__init__\<close>; the attention layer is built with the default output_dim 1.\<close>

definition DecoderLSTM ::
  "nat \<Rightarrow> nat \<Rightarrow> nat \<Rightarrow> nat \<Rightarrow> (nat \<Rightarrow> nat \<Rightarrow> real) \<Rightarrow> params \<Rightarrow> params \<Rightarrow> params \<Rightarrow>
   params \<Rightarrow> params \<Rightarrow> params \<Rightarrow> (nat \<Rightarrow> mat \<Rightarrow> mat) \<Rightarrow> params \<Rightarrow> params \<Rightarrow> decoder" where
  "DecoderLSTM nf edim hdim vsize emb p_ih p_hh p_fc pW pU pv dr p_h p_c =
     \<lparr>dec_num_features = nf, embedding_dim = edim, dec_hidden_dim = hdim, vocab_size = vsize,
      sample_temp = 0.5,
      embeddings = emb,
      lstm = LSTMCell (edim + nf) hdim p_ih p_hh,
      fc = Linear hdim vsize (fst p_fc) (snd p_fc),
      attention = BahdanauAttention nf hdim 1 pW pU pv,
      drop_layer = dr,
      init_h = Linear nf hdim (fst p_h) (snd p_h),
      init_c = Linear nf hdim (fst p_c) (snd p_c)\<rparr>"

text \<open>\<open>self.embeddings(token)\<close>: a token outside the table raises.\<close>

definition embedding :: "decoder \<Rightarrow> int \<Rightarrow> error + vec" where
  "embedding d tok =
     (if 0 \<le> tok \<and> tok < int (vocab_size d)
      then Inr (map (embeddings d (nat tok)) [0..<embedding_dim d])
      else Inl IndexError)"

text \<open>\<open>torch.cat([a, b], 1)\<close> on two matrices: the rows are joined; the batch sizes must agree.\<close>

definition cat_dim1 :: "mat \<Rightarrow> mat \<Rightarrow> error + mat" where
  "cat_dim1 a b = (if length a = length b then Inr (map2 (@) a b) else Inl ShapeError)"

definition log_softmax :: "vec \<Rightarrow> vec" where
  "log_softmax xs = map (\<lambda>x. x - ln (\<Sum>y\<leftarrow>xs. exp y)) xs"

text \<open>
  \<open>x.topk(1)[1]\<close> on a vector: the index of the largest entry, the first one among equal
  entries; on an empty vector torch raises.
\<close>

fun argmax_aux :: "nat \<Rightarrow> real \<Rightarrow> nat \<Rightarrow> vec \<Rightarrow> nat" where
  "argmax_aux best bv i [] = best"
| "argmax_aux best bv i (x # xs) =
     (if bv < x then argmax_aux i x (Suc i) xs else argmax_aux best bv (Suc i) xs)"

definition topk1 :: "vec \<Rightarrow> error + int" where
  "topk1 xs = (case xs of [] \<Rightarrow> Inl ShapeError | x # rest \<Rightarrow> Inr (int (argmax_aux 0 x 1 rest)))"

text \<open>\<open>torch.mean(features, dim=1)\<close>: for each example the mean of its slot vectors.\<close>

definition mean_dim1 :: "tensor3 \<Rightarrow> mat" where
  "mean_dim1 t = map (\<lambda>m. map (\<lambda>x. x / real (length m)) (sum_dim1 m)) t"

text \<open>
  \<open>init_hidden\<close> as the source has it: the mean is taken and projected through
  \<open>init_h\<close>, and the body ends there.  Neither \<open>init_c\<close> is applied nor anything
  returned, so the call evaluates to Python's \<open>None\<close>.  The callers unpack the result
  into \<open>h, c\<close>; unpacking \<open>None\<close> raises TypeError.
\<close>

datatype pyval = PyNone | PyTuple2 mat mat

definition init_hidden :: "decoder \<Rightarrow> tensor3 \<Rightarrow> error + pyval" where
  "init_hidden d features =
     (let mean_annotations = mean_dim1 features in
      bindE (linear_mat (init_h d) mean_annotations) (\<lambda>h0. Inr PyNone))"

fun unpack2 :: "pyval \<Rightarrow> error + (mat \<times> mat)" where
  "unpack2 PyNone = Inl TypeError"
| "unpack2 (PyTuple2 a b) = Inr (a, b)"


subsection \<open>Training mode: \<open>DecoderLSTM.forward\<close>\<close>

text \<open>
  The local variables of the loop that live from one iteration to the next.
  \<open>word_embed\<close> is unbound until its first assignment.  \<open>outputs\<close> has shape
  (batch, seq_len, vocab_size), \<open>attention_weights\<close> (batch, seq_len, feature_size).
\<close>

record fwd_state =
  st_h :: mat
  st_c :: mat
  st_word_embed :: "mat option"
  st_outputs :: tensor3
  st_attention_weights :: tensor3
  st_sample_prob :: real

definition zeros3 :: "nat \<Rightarrow> nat \<Rightarrow> nat \<Rightarrow> tensor3" where
  "zeros3 n1 n2 n3 = replicate n1 (replicate n2 (replicate n3 0))"

text \<open>\<open>out[:, t, :] = x\<close>: row t of every example is replaced; the shapes must agree.\<close>

definition assign_step :: "tensor3 \<Rightarrow> nat \<Rightarrow> mat \<Rightarrow> error + tensor3" where
  "assign_step out t x =
     (if list_all2 (\<lambda>m r. t < length m \<and> length r = length (m ! t)) out x
      then Inr (map2 (\<lambda>m r. m[t := r]) out x)
      else Inl ShapeError)"

definition assign_weights :: "tensor3 \<Rightarrow> nat \<Rightarrow> weights \<Rightarrow> error + tensor3" where
  "assign_weights out t w = (case w of W2 x \<Rightarrow> assign_step out t x | W3 _ \<Rightarrow> Inl ShapeError)"

text \<open>Lines 92 to 95: the embedding that line 98 reads, \<open>None\<close> when the name is unbound.\<close>

definition use_sampling_at :: "nat \<Rightarrow> real \<Rightarrow> bool" where
  "use_sampling_at t draw = (let sample_prob = (if t = 0 then 0.0 else 0.5) in draw < sample_prob)"

definition input_embedding :: "tensor3 \<Rightarrow> nat \<Rightarrow> real \<Rightarrow> mat option \<Rightarrow> mat option" where
  "input_embedding embeds t draw word_embed =
     (if use_sampling_at t draw = False then Some (map (\<lambda>e. e ! t) embeds) else word_embed)"

text \<open>Lines 104 to 107: the embedding of the most likely token of this step's output.\<close>

definition sampled_embedding :: "decoder \<Rightarrow> mat \<Rightarrow> error + mat" where
  "sampled_embedding d output =
     (let scaled_output = map (map (\<lambda>x. x / sample_temp d)) output;
          scoring = map log_softmax scaled_output in
      bindE (mapE topk1 scoring) (\<lambda>top_idx. mapE (embedding d) top_idx))"

text \<open>
  One iteration of the loop of lines 91 to 109, at step \<open>t\<close> with the value \<open>draw\<close> of
  \<open>np.random.random()\<close>.  The parameter \<open>sample_prob\<close> is overwritten at line 92
  before anything reads it.
\<close>

definition forward_step ::
  "decoder \<Rightarrow> tensor3 \<Rightarrow> tensor3 \<Rightarrow> nat \<Rightarrow> real \<Rightarrow> fwd_state \<Rightarrow> error + fwd_state" where
  "forward_step d embeds features t draw st =
     (let sample_prob = (if t = 0 then 0.0 else 0.5);
          use_sampling = use_sampling_at t draw;
          word_embed = input_embedding embeds t draw (st_word_embed st) in
      bindE (attention_forward (attention d) features (st_h st)) (\<lambda>(context, attention_weight).
      bindE (case word_embed of None \<Rightarrow> Inl UnboundLocalError | Some we \<Rightarrow> Inr we) (\<lambda>we.
      bindE (cat_dim1 we context) (\<lambda>input_concat.
      bindE (lstm_forward (lstm d) input_concat (st_h st, st_c st)) (\<lambda>(h1, c1).
      let h2 = drop_layer d t h1 in
      bindE (linear_mat (fc d) h2) (\<lambda>output.
      bindE (if use_sampling = True then bindE (sampled_embedding d output) (\<lambda>e. Inr (Some e))
             else Inr word_embed) (\<lambda>word_embed'.
      bindE (assign_step (st_outputs st) t output) (\<lambda>outputs'.
      bindE (assign_weights (st_attention_weights st) t attention_weight) (\<lambda>attention_weights'.
      Inr \<lparr>st_h = h2, st_c = c1, st_word_embed = word_embed', st_outputs = outputs',
           st_attention_weights = attention_weights', st_sample_prob = sample_prob\<rparr>)))))))))"

text \<open>\<open>for t in range(seq_len)\<close>; \<open>draws t\<close> is the random number drawn in iteration t.\<close>

fun forward_loop ::
  "decoder \<Rightarrow> tensor3 \<Rightarrow> tensor3 \<Rightarrow> (nat \<Rightarrow> real) \<Rightarrow> nat list \<Rightarrow> fwd_state \<Rightarrow> error + fwd_state" where
  "forward_loop d embeds features draws [] st = Inr st"
| "forward_loop d embeds features draws (t # ts) st =
     bindE (forward_step d embeds features t (draws t) st) (forward_loop d embeds features draws ts)"

definition size1 :: "'a list list \<Rightarrow> nat" where
  "size1 t = (case t of [] \<Rightarrow> 0 | m # _ \<Rightarrow> length m)"

definition forward ::
  "decoder \<Rightarrow> int list list \<Rightarrow> tensor3 \<Rightarrow> real \<Rightarrow> (nat \<Rightarrow> real) \<Rightarrow> error + (tensor3 \<times> tensor3)" where
  "forward d captions features sample_prob draws =
     bindE (mapE (mapE (embedding d)) captions) (\<lambda>embeds.
     bindE (init_hidden d features) (\<lambda>r.
     bindE (unpack2 r) (\<lambda>(h, c).
     let seq_len = size1 captions;
         feature_size = size1 features;
         batch_size = length features;
         outputs = zeros3 batch_size seq_len (vocab_size d);
         attention_weights = zeros3 batch_size seq_len feature_size in
     bindE (forward_loop d embeds features draws [0..<seq_len]
              \<lparr>st_h = h, st_c = c, st_word_embed = None, st_outputs = outputs,
               st_attention_weights = attention_weights, st_sample_prob = sample_prob\<rparr>)
       (\<lambda>st. Inr (st_outputs st, st_attention_weights st)))))"

subsection \<open>Inference: \<open>DecoderLSTM.greedy_search\<close>\<close>

text \<open>
  Lines 138 to 146, one pass of the body up to the choice of \<open>top_idx\<close>; \<open>n\<close> counts the
  calls of the dropout layer.
\<close>

definition greedy_step ::
  "decoder \<Rightarrow> tensor3 \<Rightarrow> int \<Rightarrow> mat \<Rightarrow> mat \<Rightarrow> nat \<Rightarrow> error + (int \<times> weights \<times> mat \<times> mat)" where
  "greedy_step d features input_word h c n =
     bindE (mapE (embedding d) [input_word]) (\<lambda>embedded_word.
     bindE (attention_forward (attention d) features h) (\<lambda>(context, attention_weight).
     bindE (cat_dim1 embedded_word context) (\<lambda>input_concat.
     bindE (lstm_forward (lstm d) input_concat (h, c)) (\<lambda>(h1, c1).
     let h2 = drop_layer d n h1 in
     bindE (linear_mat (fc d) h2) (\<lambda>output.
     let scoring = map log_softmax output in
     bindE (case scoring of [] \<Rightarrow> Inl IndexError | row # _ \<Rightarrow> Inr row) (\<lambda>row.
     bindE (topk1 row) (\<lambda>top_idx.
     Inr (top_idx, attention_weight, h2, c1))))))))"

text \<open>
  The \<open>while True\<close> loop of lines 137 to 151 with its exit test at the end of the body;
  \<open>max_sentence\<close> is a Python integer.
\<close>

function greedy_loop ::
  "decoder \<Rightarrow> tensor3 \<Rightarrow> int \<Rightarrow> int list \<Rightarrow> weights list \<Rightarrow> int \<Rightarrow> mat \<Rightarrow> mat \<Rightarrow>
   error + (int list \<times> weights list)" where
  "greedy_loop d features max_sentence sentence ws input_word h c =
     (case greedy_step d features input_word h c (length sentence) of
        Inl e \<Rightarrow> Inl e
      | Inr (top_idx, attention_weight, h2, c1) \<Rightarrow>
          let sentence' = sentence @ [top_idx];
              ws' = ws @ [attention_weight]
          in if int (length sentence') \<ge> max_sentence \<or> top_idx = 1 then Inr (sentence', ws')
             else greedy_loop d features max_sentence sentence' ws' top_idx h2 c1)"
  by pat_completeness auto
termination
  by (relation "measure (\<lambda>(d, features, max_sentence, sentence, ws, input_word, h, c).
                  nat (max_sentence - int (length sentence)))") auto

declare greedy_loop.simps [simp del]

definition greedy_search :: "decoder \<Rightarrow> tensor3 \<Rightarrow> int \<Rightarrow> error + (int list \<times> weights list)" where
  "greedy_search d features max_sentence =
     bindE (init_hidden d features) (\<lambda>r.
     bindE (unpack2 r) (\<lambda>(h, c).
     greedy_loop d features max_sentence [] [] 0 h c))"


section \<open>CaptionEmbedder\<close>

text \<open>
  The embedder object: the trained word-vector model (of the gensim library, kept
  abstract), the word-to-index dictionary \<open>w2i\<close> and the four hyperparameters.
  \<open>__init__\<close> leaves \<open>model\<close> and \<open>w2i\<close> at \<open>None\<close>.
\<close>

record 'm caption_embedder =
  model :: "'m option"
  w2i :: "(string \<rightharpoonup> int) option"
  vector_size :: nat
  window :: nat
  min_count :: nat
  sg :: nat

definition CaptionEmbedder :: "nat \<Rightarrow> nat \<Rightarrow> nat \<Rightarrow> nat \<Rightarrow> 'm caption_embedder" where
  "CaptionEmbedder vs win mc s =
     \<lparr>model = None, w2i = None, vector_size = vs, window = win, min_count = mc, sg = s\<rparr>"

text \<open>
  \<open>VocabBuilder2\<close> lives in \<open>preprocess/vocab.py\<close>, which is not part of the sources
  at hand; \<open>process_df\<close> only calls it, so its three operations are parameters.
  \<open>make_dict\<close> receives the tokenized column and the minimum count.
\<close>

record 'df vocab_builder =
  tokenize_df :: "'df \<Rightarrow> 'df"
  make_dict :: "'df \<Rightarrow> nat \<Rightarrow> (string \<rightharpoonup> int)"
  indexize_df :: "'df \<Rightarrow> (string \<rightharpoonup> int) \<Rightarrow> 'df"

definition process_df ::
  "'df vocab_builder \<Rightarrow> 'm caption_embedder \<Rightarrow> 'df \<Rightarrow> 'df \<times> 'm caption_embedder" where
  "process_df builder self df =
     (let df1 = tokenize_df builder df;
          d = make_dict builder df1 (min_count self);
          self' = self\<lparr>w2i := Some d\<rparr>;
          df2 = indexize_df builder df1 d
      in (df2, self'))"

text \<open>
  \<open>save\<close> pickles the whole object into the file at \<open>path\<close>, \<open>load\<close> unpickles what the
  file holds.  A file system maps a path to the object pickled there; opening a path for
  writing can be refused, opening a missing file for reading raises.
\<close>

record 'm filesystem =
  files :: "string \<rightharpoonup> 'm caption_embedder"
  writable :: "string \<Rightarrow> bool"

definition save :: "'m caption_embedder \<Rightarrow> string \<Rightarrow> 'm filesystem \<Rightarrow> error + 'm filesystem" where
  "save self path fs =
     (if writable fs path then Inr (fs\<lparr>files := (files fs)(path \<mapsto> self)\<rparr>)
      else Inl PermissionError)"

definition load :: "string \<Rightarrow> 'm filesystem \<Rightarrow> error + 'm caption_embedder" where
  "load model_path fs =
     (case files fs model_path of None \<Rightarrow> Inl FileNotFoundError | Some obj \<Rightarrow> Inr obj)"

section \<open>Well-formed inputs and the concrete instances used below\<close>

text \<open>
  A valid input of \<open>BahdanauAttention.forward\<close> for feature size \<open>nf\<close> and hidden size
  \<open>hdim\<close>: features of shape (batch, num_slots, nf) with at least one slot, and a hidden
  state of shape (batch, hdim).
\<close>

definition valid_input :: "nat \<Rightarrow> nat \<Rightarrow> tensor3 \<Rightarrow> mat \<Rightarrow> bool" where
  "valid_input nf hdim features hidden \<longleftrightarrow>
     length hidden = length features \<and>
     list_all (\<lambda>m. m \<noteq> [] \<and> list_all (\<lambda>r. length r = nf) m) features \<and>
     list_all (\<lambda>h. length h = hdim) hidden"

text \<open>The layers of an attention module have the sizes its constructor gives them.\<close>

definition wf_attention :: "attention \<Rightarrow> bool" where
  "wf_attention a \<longleftrightarrow>
     in_features (W_a a) = num_features a \<and> out_features (W_a a) = hidden_dim a \<and>
     in_features (U_a a) = hidden_dim a \<and> out_features (U_a a) = hidden_dim a \<and>
     in_features (v_a a) = hidden_dim a \<and> out_features (v_a a) = output_dim a"

text \<open>The scores of line 33 on a valid input, written out.\<close>

definition scores :: "attention \<Rightarrow> tensor3 \<Rightarrow> mat \<Rightarrow> tensor3" where
  "scores a features hidden =
     map2 (\<lambda>m h. map (\<lambda>r. linear_out (v_a a)
                 (map tanh (map2 (+) (linear_out (W_a a) r) (linear_out (U_a a) h)))) m)
          features hidden"

definition zero_params :: params where
  "zero_params = (\<lambda>i j. 0, \<lambda>i. 0)"

text \<open>An output layer biased to predict index 1, the end token, whatever its input.\<close>

definition end_bias_params :: params where
  "end_bias_params = (\<lambda>i j. 0, \<lambda>i. if i = 1 then 1 else 0)"

definition eval_dropout :: "nat \<Rightarrow> mat \<Rightarrow> mat" where
  "eval_dropout n x = x"

definition token_value :: "nat \<Rightarrow> nat \<Rightarrow> real" where
  "token_value tok k = real tok"

text \<open>
  A decoder over the vocabulary {start = 0, end = 1, cat = 2} with one feature, one
  embedding column and one hidden unit, in evaluation mode, whose output layer always
  predicts the end token.
\<close>

definition end_decoder :: decoder where
  "end_decoder = DecoderLSTM 1 1 1 3 token_value zero_params zero_params end_bias_params
                   zero_params zero_params zero_params eval_dropout zero_params zero_params"

definition two_slots :: tensor3 where
  "two_slots = [[[1], [2]]]"

definition zero_state :: mat where
  "zero_state = [[0]]"

definition attention_2_1 :: attention where
  "attention_2_1 = BahdanauAttention 2 1 1 zero_params zero_params zero_params"

definition features_2 :: tensor3 where
  "features_2 = [[[1, 2], [3, 4]]]"

definition features_3 :: tensor3 where
  "features_3 = [[[1, 2, 3]]]"

text \<open>
  The state in which the training loop would start on \<open>two_slots\<close> with a caption of
  two tokens, had it been handed a zero hidden state.
\<close>

definition start_state :: fwd_state where
  "start_state = \<lparr>st_h = zero_state, st_c = zero_state, st_word_embed = None,
                   st_outputs = zeros3 1 2 3, st_attention_weights = zeros3 1 2 2,
                   st_sample_prob = 0\<rparr>"

definition after_step0 :: fwd_state where
  "after_step0 = \<lparr>st_h = [[0]], st_c = [[0]], st_word_embed = Some [[2]],
                   st_outputs = [[[0, 1, 0], [0, 0, 0]]],
                   st_attention_weights = [[[1 / 2, 1 / 2], [0, 0]]],
                   st_sample_prob = 0\<rparr>"

definition no_draws :: "nat \<Rightarrow> real" where
  "no_draws t = 9 / 10"

text \<open>A vocabulary builder and an empty, writable file system for a concrete run.\<close>

definition three_words :: "string \<rightharpoonup> int" where
  "three_words = [''<start>'' \<mapsto> 0, ''<end>'' \<mapsto> 1, ''cat'' \<mapsto> 2]"

definition plain_builder :: "string list vocab_builder" where
  "plain_builder = \<lparr>tokenize_df = (\<lambda>df. df), make_dict = (\<lambda>df mc. three_words),
                     indexize_df = (\<lambda>df d. df)\<rparr>"

definition fresh_embedder :: "unit caption_embedder" where
  "fresh_embedder = CaptionEmbedder 256 3 3 1"

definition empty_fs :: "unit filesystem" where
  "empty_fs = \<lparr>files = Map.empty, writable = (\<lambda>p. True)\<rparr>"

section \<open>Facts about the tensor operations\<close>

lemma bindE_simps [simp]: "bindE (Inl e) f = Inl e" "bindE (Inr x) f = f x"
  by (simp_all add: bindE_def)

lemma bindE_Inr_iff: "bindE m f = Inr y \<longleftrightarrow> (\<exists>x. m = Inr x \<and> f x = Inr y)"
  by (cases m) simp_all

lemma mapE_total: "(\<And>x. x \<in> set xs \<Longrightarrow> f x = Inr (g x)) \<Longrightarrow> mapE f xs = Inr (map g xs)"
  by (induction xs) simp_all

lemma length_linear_out [simp]: "length (linear_out L x) = out_features L"
  by (simp add: linear_out_def)

lemma linear_mat_ok:
  "(\<And>r. r \<in> set m \<Longrightarrow> length r = in_features L) \<Longrightarrow> linear_mat L m = Inr (map (linear_out L) m)"
  unfolding linear_mat_def by (rule mapE_total) (simp add: linear_vec_def)

lemma linear_t3_ok:
  "(\<And>m r. m \<in> set t \<Longrightarrow> r \<in> set m \<Longrightarrow> length r = in_features L) \<Longrightarrow>
   linear_t3 L t = Inr (map (map (linear_out L)) t)"
  unfolding linear_t3_def by (rule mapE_total) (simp add: linear_mat_ok)

lemma broadcast2_same:
  "length xs = length ys \<Longrightarrow> (\<And>x y. (x, y) \<in> set (zip xs ys) \<Longrightarrow> f x y = Inr (g x y)) \<Longrightarrow>
   broadcast2 f xs ys = Inr (map2 g xs ys)"
  unfolding broadcast2_def by (simp add: mapE_total [where g = "\<lambda>(x, y). g x y"] split_def)

lemma broadcast2_right1:
  "(\<And>x. x \<in> set xs \<Longrightarrow> f x y = Inr (g x y)) \<Longrightarrow> broadcast2 f xs [y] = Inr (map (\<lambda>x. g x y) xs)"
proof (cases "length xs = 1")
  case True
  then obtain x where "xs = [x]" by (cases xs) auto
  moreover assume "\<And>x. x \<in> set xs \<Longrightarrow> f x y = Inr (g x y)"
  ultimately show ?thesis by (simp add: broadcast2_def)
next
  case False
  moreover assume "\<And>x. x \<in> set xs \<Longrightarrow> f x y = Inr (g x y)"
  ultimately show ?thesis by (simp add: broadcast2_def mapE_total [where g = "\<lambda>x. g x y"])
qed

lemma broadcast2_left1:
  "(\<And>y. y \<in> set ys \<Longrightarrow> f x y = Inr (g x y)) \<Longrightarrow> broadcast2 f [x] ys = Inr (map (g x) ys)"
proof (cases "length ys = 1")
  case True
  then obtain y where "ys = [y]" by (cases ys) auto
  moreover assume "\<And>y. y \<in> set ys \<Longrightarrow> f x y = Inr (g x y)"
  ultimately show ?thesis by (simp add: broadcast2_def)
next
  case False
  moreover assume "\<And>y. y \<in> set ys \<Longrightarrow> f x y = Inr (g x y)"
  ultimately show ?thesis by (simp add: broadcast2_def mapE_total [where g = "g x"])
qed


lemma add_t3_ok:
  assumes len: "length A2 = length A1"
    and A1: "\<And>m r. m \<in> set A1 \<Longrightarrow> r \<in> set m \<Longrightarrow> length r = n"
    and A2: "\<And>u. u \<in> set A2 \<Longrightarrow> length u = n"
  shows "add_t3 A1 (map (\<lambda>u. [u]) A2) = Inr (map2 (\<lambda>m u. map (\<lambda>r. map2 (+) r u) m) A1 A2)"
proof -
  have inner: "broadcast2 (\<lambda>x y. Inr (x + y)) r u = Inr (map2 (+) r u)"
    if "length r = length u" for r u :: vec
    using that by (rule broadcast2_same) simp
  have mid: "broadcast2 (broadcast2 (\<lambda>x y. Inr (x + y))) m [u] = Inr (map (\<lambda>r. map2 (+) r u) m)"
    if "m \<in> set A1" "u \<in> set A2" for m u
    by (rule broadcast2_right1) (use that A1 A2 in \<open>simp add: inner\<close>)
  have "add_t3 A1 (map (\<lambda>u. [u]) A2)
        = Inr (map2 (\<lambda>m uu. map (\<lambda>r. map2 (+) r (hd uu)) m) A1 (map (\<lambda>u. [u]) A2))"
    unfolding add_t3_def
  proof (rule broadcast2_same)
    show "length A1 = length (map (\<lambda>u. [u]) A2)" using len by simp
  next
    fix m uu assume "(m, uu) \<in> set (zip A1 (map (\<lambda>u. [u]) A2))"
    then have "m \<in> set A1" "uu \<in> set (map (\<lambda>u. [u]) A2)"
      by (auto dest: set_zip_leftD set_zip_rightD)
    then obtain u where "u \<in> set A2" "uu = [u]" by auto
    with \<open>m \<in> set A1\<close> show "broadcast2 (broadcast2 (\<lambda>x y. Inr (x + y))) m uu
        = Inr (map (\<lambda>r. map2 (+) r (hd uu)) m)"
      by (simp add: mid)
  qed
  also have "map2 (\<lambda>m uu. map (\<lambda>r. map2 (+) r (hd uu)) m) A1 (map (\<lambda>u. [u]) A2)
      = map2 (\<lambda>m u. map (\<lambda>r. map2 (+) r u) m) A1 A2"
    by (simp add: zip_map2 split_def)
  finally show ?thesis .
qed

lemma mul_t3_ok:
  assumes len: "length F = length W"
    and slots: "\<And>b. b < length W \<Longrightarrow> length (F ! b) = length (W ! b)"
    and W1: "\<And>m r. m \<in> set W \<Longrightarrow> r \<in> set m \<Longrightarrow> length r = 1"
  shows "mul_t3 W F = Inr (map2 (\<lambda>m f. map2 (\<lambda>r x. map (\<lambda>y. hd r * y) x) m f) W F)"
proof -
  have inner: "broadcast2 (\<lambda>x y. Inr (x * y)) r x = Inr (map (\<lambda>y. hd r * y) x)"
    if "length r = 1" for r x :: vec
  proof -
    from that obtain w where "r = [w]" by (cases r) auto
    then show ?thesis by (simp add: broadcast2_left1)
  qed
  have mid: "broadcast2 (broadcast2 (\<lambda>x y. Inr (x * y))) m f
      = Inr (map2 (\<lambda>r x. map (\<lambda>y. hd r * y) x) m f)"
    if "m \<in> set W" "length f = length m" for m f
  proof (rule broadcast2_same)
    show "length m = length f" using that by simp
  next
    fix r x assume "(r, x) \<in> set (zip m f)"
    then have "r \<in> set m" by (rule set_zip_leftD)
    with that W1 show "broadcast2 (\<lambda>x y. Inr (x * y)) r x = Inr (map (\<lambda>y. hd r * y) x)"
      by (simp add: inner)
  qed
  show ?thesis unfolding mul_t3_def
  proof (rule broadcast2_same)
    show "length W = length F" using len by simp
  next
    fix m f assume mf: "(m, f) \<in> set (zip W F)"
    then obtain b where "b < length W" "m = W ! b" "f = F ! b"
      using len by (auto simp: set_zip)
    with slots show "broadcast2 (broadcast2 (\<lambda>x y. Inr (x * y))) m f
        = Inr (map2 (\<lambda>r x. map (\<lambda>y. hd r * y) x) m f)"
      by (intro mid) simp_all
  qed
qed


lemma length_softmax_dim1 [simp]: "length (softmax_dim1 m) = length m"
  by (simp add: softmax_dim1_def)

lemma softmax_dim1_row_length: "r \<in> set (softmax_dim1 m) \<Longrightarrow> \<exists>r'\<in>set m. length r = length r'"
  by (auto simp: softmax_dim1_def)

lemma length_scores [simp]:
  "length (scores a features hidden) = min (length features) (length hidden)"
  by (simp add: scores_def)

lemma scores_nth:
  "b < length features \<Longrightarrow> b < length hidden \<Longrightarrow>
   scores a features hidden ! b =
     map (\<lambda>r. linear_out (v_a a)
            (map tanh (map2 (+) (linear_out (W_a a) r) (linear_out (U_a a) (hidden ! b)))))
         (features ! b)"
  by (simp add: scores_def)

lemma attention_forward_valid:
  assumes wf: "wf_attention a" and od: "output_dim a = 1"
    and v: "valid_input (num_features a) (hidden_dim a) features hidden"
  shows "attention_forward a features hidden =
     Inr (map2 (\<lambda>sc f. sum_dim1 (map2 (\<lambda>r x. map (\<lambda>y. hd r * y) x) (softmax_dim1 sc) f))
               (scores a features hidden) features,
          W2 (map (\<lambda>sc. map hd (softmax_dim1 sc)) (scores a features hidden)))"
proof -
  let ?W = "linear_out (W_a a)" and ?U = "linear_out (U_a a)" and ?v = "linear_out (v_a a)"
  from v have len: "length hidden = length features"
    and feat: "\<And>m r. m \<in> set features \<Longrightarrow> r \<in> set m \<Longrightarrow> length r = num_features a"
    and hid: "\<And>h. h \<in> set hidden \<Longrightarrow> length h = hidden_dim a"
    by (auto simp: valid_input_def list_all_iff)
  from wf have dims: "in_features (W_a a) = num_features a" "out_features (W_a a) = hidden_dim a"
    "in_features (U_a a) = hidden_dim a" "out_features (U_a a) = hidden_dim a"
    "in_features (v_a a) = hidden_dim a" "out_features (v_a a) = output_dim a"
    by (auto simp: wf_attention_def)
  have s1: "linear_t3 (W_a a) features = Inr (map (map ?W) features)"
    by (rule linear_t3_ok) (simp add: feat dims)
  have "linear_t3 (U_a a) (map (\<lambda>h. [h]) hidden) = Inr (map (map ?U) (map (\<lambda>h. [h]) hidden))"
    by (rule linear_t3_ok) (auto simp: hid dims)
  then have s2: "linear_t3 (U_a a) (map (\<lambda>h. [h]) hidden) = Inr (map (\<lambda>u. [u]) (map ?U hidden))"
    by (simp add: comp_def)
  let ?S = "map2 (\<lambda>m u. map (\<lambda>r. map2 (+) r u) m) (map (map ?W) features) (map ?U hidden)"
  have s3: "add_t3 (map (map ?W) features) (map (\<lambda>u. [u]) (map ?U hidden)) = Inr ?S"
    by (rule add_t3_ok [where n = "hidden_dim a"]) (auto simp: len dims)
  have S_eq: "?S = map2 (\<lambda>m h. map (\<lambda>r. map2 (+) (?W r) (?U h)) m) features hidden"
    by (simp add: zip_map1 zip_map2 split_def comp_def)
  have s4: "linear_t3 (v_a a) (map (map (map tanh)) ?S) = Inr (map (map ?v) (map (map (map tanh)) ?S))"
  proof (rule linear_t3_ok)
    fix m r assume "m \<in> set (map (map (map tanh)) ?S)" "r \<in> set m"
    then show "length r = in_features (v_a a)"
      unfolding S_eq by (auto simp: dims)
  qed
  have sc: "map (map ?v) (map (map (map tanh)) ?S) = scores a features hidden"
    by (simp add: scores_def zip_map1 zip_map2 split_def comp_def)
  have s5: "mul_t3 (map softmax_dim1 (scores a features hidden)) features
      = Inr (map2 (\<lambda>m f. map2 (\<lambda>r x. map (\<lambda>y. hd r * y) x) m f)
               (map softmax_dim1 (scores a features hidden)) features)"
  proof (rule mul_t3_ok)
    show "length features = length (map softmax_dim1 (scores a features hidden))"
      by (simp add: len)
  next
    fix b assume "b < length (map softmax_dim1 (scores a features hidden))"
    then show "length (features ! b) = length (map softmax_dim1 (scores a features hidden) ! b)"
      by (simp add: len scores_nth)
  next
    fix m r assume "m \<in> set (map softmax_dim1 (scores a features hidden))" "r \<in> set m"
    then obtain sc0 where "sc0 \<in> set (scores a features hidden)" "r \<in> set (softmax_dim1 sc0)"
      by auto
    then obtain r' where "r' \<in> set sc0" "length r = length r'"
      by (auto dest: softmax_dim1_row_length)
    with \<open>sc0 \<in> set (scores a features hidden)\<close> show "length r = 1"
      by (auto simp: scores_def dims od dest!: set_zip_leftD)
  qed
  show ?thesis
    unfolding attention_forward_def Let_def
    by (simp only: s1 s2 s3 s4 sc s5 bindE_simps weighted_context_def)
       (simp add: dims od squeeze_dim2_def zip_map1 split_def)
qed


lemma sum_list_exp_pos: "xs \<noteq> [] \<Longrightarrow> 0 < (\<Sum>x\<leftarrow>xs. exp (f x :: real))"
proof (induction xs)
  case Nil
  then show ?case by simp
next
  case (Cons x xs)
  have "0 \<le> (\<Sum>x\<leftarrow>xs. exp (f x))" by (rule sum_list_nonneg) auto
  moreover have "0 < exp (f x)" by simp
  ultimately show ?case by (simp add: add_pos_nonneg)
qed

lemma sum_list_divide: "(\<Sum>x\<leftarrow>xs. f x / c) = (\<Sum>x\<leftarrow>xs. f x) / (c :: real)"
  by (induction xs) (simp_all add: add_divide_distrib)

lemma softmax_column:
  assumes ne: "sc \<noteq> []" and one: "\<And>r. r \<in> set sc \<Longrightarrow> length r = 1"
  shows "map hd (softmax_dim1 sc) = map (\<lambda>r. exp (r ! 0) / (\<Sum>r'\<leftarrow>sc. exp (r' ! 0))) sc"
  using one by (simp add: softmax_dim1_def)

lemma softmax_column_distribution:
  assumes ne: "sc \<noteq> []" and one: "\<And>r. r \<in> set sc \<Longrightarrow> length r = 1"
  shows "(\<forall>x\<in>set (map hd (softmax_dim1 sc)). 0 \<le> x) \<and> sum_list (map hd (softmax_dim1 sc)) = 1"
proof -
  let ?Z = "\<Sum>r'\<leftarrow>sc. exp (r' ! 0)"
  have Z: "0 < ?Z" using ne by (rule sum_list_exp_pos)
  have eq: "map hd (softmax_dim1 sc) = map (\<lambda>r. exp (r ! 0) / ?Z) sc"
    using ne one by (rule softmax_column)
  have "\<forall>x\<in>set (map (\<lambda>r. exp (r ! 0) / ?Z) sc). 0 \<le> x"
    using Z by (auto intro!: divide_nonneg_pos)
  moreover have "sum_list (map (\<lambda>r. exp (r ! 0) / ?Z) sc) = 1"
    using Z by (simp add: sum_list_divide)
  ultimately show ?thesis unfolding eq by blast
qed

lemma map2_upt:
  "length xs = length ys \<Longrightarrow> map2 f xs ys = map (\<lambda>i. f (xs ! i) (ys ! i)) [0..<length xs]"
  by (rule nth_equalityI) simp_all

lemma sum_dim1_weighted:
  assumes len: "length ws = length fs" and ne: "fs \<noteq> []"
    and rect: "\<And>x. x \<in> set fs \<Longrightarrow> length x = n"
  shows "sum_dim1 (map2 (\<lambda>r x. map (\<lambda>y. hd r * y) x) ws fs)
       = map (\<lambda>k. \<Sum>s\<leftarrow>[0..<length fs]. hd (ws ! s) * fs ! s ! k) [0..<n]"
proof -
  let ?P = "map2 (\<lambda>r x. map (\<lambda>y. hd r * y) x) ws fs"
  have P: "?P = map (\<lambda>i. map (\<lambda>y. hd (ws ! i) * y) (fs ! i)) [0..<length fs]"
    using len by (simp add: map2_upt)
  obtain f0 fs' where fs: "fs = f0 # fs'" using ne by (cases fs) auto
  obtain w0 ws' where ws: "ws = w0 # ws'" using len fs by (cases ws) auto
  have hdlen: "(case ?P of [] \<Rightarrow> 0 | r # _ \<Rightarrow> length r) = n"
    using rect [of f0] by (simp add: fs ws)
  have "sum_dim1 ?P = map (\<lambda>k. \<Sum>r\<leftarrow>?P. r ! k) [0..<n]"
    unfolding sum_dim1_def hdlen ..
  also have "\<dots> = map (\<lambda>k. \<Sum>s\<leftarrow>[0..<length fs]. hd (ws ! s) * fs ! s ! k) [0..<n]"
  proof (rule map_cong [OF refl])
    fix k assume "k \<in> set [0..<n]"
    then have k: "k < n" by simp
    have "(\<Sum>r\<leftarrow>?P. r ! k) = (\<Sum>s\<leftarrow>[0..<length fs]. map (\<lambda>y. hd (ws ! s) * y) (fs ! s) ! k)"
      unfolding P by (simp add: comp_def)
    also have "\<dots> = (\<Sum>s\<leftarrow>[0..<length fs]. hd (ws ! s) * fs ! s ! k)"
      by (rule arg_cong [where f = sum_list], rule map_cong [OF refl]) (simp add: rect k)
    finally show "(\<Sum>r\<leftarrow>?P. r ! k) = (\<Sum>s\<leftarrow>[0..<length fs]. hd (ws ! s) * fs ! s ! k)" .
  qed
  finally show ?thesis .
qed

lemma one_hot_sum:
  "j < n \<Longrightarrow> (\<Sum>s\<leftarrow>[0..<n]. (if s = j then 1 else 0) * g s) = (g j :: real)"
proof -
  assume j: "j < n"
  have "(\<Sum>s\<leftarrow>[0..<n]. (if s = j then 1 else 0) * g s) = (\<Sum>s\<in>{0..<n}. if s = j then g s else 0)"
    by (simp add: sum_list_sum_nth if_distrib [where f = "\<lambda>x. x * _"] cong: if_cong)
  also have "\<dots> = g j" using j by simp
  finally show ?thesis .
qed


lemma wf_BahdanauAttention [simp]: "wf_attention (BahdanauAttention nf hdim odim pW pU pv)"
  by (simp add: wf_attention_def BahdanauAttention_def Linear_def)

lemma BahdanauAttention_sel [simp]:
  "num_features (BahdanauAttention nf hdim odim pW pU pv) = nf"
  "hidden_dim (BahdanauAttention nf hdim odim pW pU pv) = hdim"
  "output_dim (BahdanauAttention nf hdim odim pW pU pv) = odim"
  by (simp_all add: BahdanauAttention_def)

lemma scores_shape:
  assumes wf: "wf_attention a" and od: "output_dim a = 1"
    and v: "valid_input (num_features a) (hidden_dim a) features hidden"
    and b: "b < length features"
  shows "scores a features hidden ! b \<noteq> []"
    and "length (scores a features hidden ! b) = length (features ! b)"
    and "\<And>r. r \<in> set (scores a features hidden ! b) \<Longrightarrow> length r = 1"
proof -
  from v have len: "length hidden = length features"
    and ne: "features ! b \<noteq> []"
    using b by (auto simp: valid_input_def list_all_iff)
  from wf od have o1: "out_features (v_a a) = 1" by (simp add: wf_attention_def)
  show "scores a features hidden ! b \<noteq> []" using b len ne by (simp add: scores_nth)
  show "length (scores a features hidden ! b) = length (features ! b)"
    using b len by (simp add: scores_nth)
  show "\<And>r. r \<in> set (scores a features hidden ! b) \<Longrightarrow> length r = 1"
    using b len o1 by (auto simp: scores_nth)
qed

text \<open>
  Claim C2.  On every valid input (features of shape (batch, num_slots, feature_dim) with
  at least one slot, hidden state of shape (batch, hidden_dim)) the forward pass of the
  attention module returns, and the attention weights it returns are non-negative and sum
  to 1 over the slots of each example.
\<close>

theorem attention_weights_distribution:
  assumes v: "valid_input nf hdim features hidden"
  shows "\<exists>context aw.
           attention_forward (BahdanauAttention nf hdim 1 pW pU pv) features hidden
             = Inr (context, W2 aw) \<and>
           length aw = length features \<and>
           (\<forall>b<length features.
              length (aw ! b) = length (features ! b) \<and>
              (\<forall>x\<in>set (aw ! b). 0 \<le> x) \<and> sum_list (aw ! b) = 1)"
proof -
  let ?a = "BahdanauAttention nf hdim 1 pW pU pv"
  let ?sc = "scores ?a features hidden"
  let ?aw = "map (\<lambda>sc. map hd (softmax_dim1 sc)) ?sc"
  have v': "valid_input (num_features ?a) (hidden_dim ?a) features hidden" using v by simp
  from v have len: "length hidden = length features" by (simp add: valid_input_def)
  have fwd: "attention_forward ?a features hidden
      = Inr (map2 (\<lambda>sc f. sum_dim1 (map2 (\<lambda>r x. map (\<lambda>y. hd r * y) x) (softmax_dim1 sc) f))
               ?sc features, W2 ?aw)"
    by (rule attention_forward_valid) (simp_all add: v)
  have "length (?aw ! b) = length (features ! b) \<and>
        (\<forall>x\<in>set (?aw ! b). 0 \<le> x) \<and> sum_list (?aw ! b) = 1" if b: "b < length features" for b
  proof -
    have nth: "?aw ! b = map hd (softmax_dim1 (?sc ! b))" using b len by simp
    have "(\<forall>x\<in>set (map hd (softmax_dim1 (?sc ! b))). 0 \<le> x) \<and>
          sum_list (map hd (softmax_dim1 (?sc ! b))) = 1"
      by (rule softmax_column_distribution)
         (use scores_shape [OF wf_BahdanauAttention _ v' b] in simp_all)
    moreover have "length (map hd (softmax_dim1 (?sc ! b))) = length (features ! b)"
      using scores_shape(2) [OF wf_BahdanauAttention _ v' b] by simp
    ultimately show ?thesis unfolding nth by blast
  qed
  moreover have "length ?aw = length features" using len by simp
  ultimately show ?thesis using fwd by blast
qed

theorem attention_weights_distribution_witness:
  "valid_input 2 1 features_2 zero_state \<and>
   (\<exists>context aw.
      attention_forward attention_2_1 features_2 zero_state = Inr (context, W2 aw) \<and>
      length aw = length features_2 \<and>
      (\<forall>b<length features_2.
         length (aw ! b) = length (features_2 ! b) \<and>
         (\<forall>x\<in>set (aw ! b). 0 \<le> x) \<and> sum_list (aw ! b) = 1))"
proof -
  have v: "valid_input 2 1 features_2 zero_state"
    by (simp add: valid_input_def features_2_def zero_state_def)
  show ?thesis
    using v attention_weights_distribution [OF v, of zero_params zero_params zero_params]
    unfolding attention_2_1_def by blast
qed

lemma weighted_context_one_hot:
  assumes j: "j < length fs" and rect: "list_all (\<lambda>x. length x = nf) fs"
  shows "weighted_context [map (\<lambda>s. [if s = j then 1 else 0]) [0..<length fs]] [fs] = Inr [fs ! j]"
proof -
  let ?W = "map (\<lambda>s. [if s = j then 1 else 0 :: real]) [0..<length fs]"
  from rect have r: "\<And>x. x \<in> set fs \<Longrightarrow> length x = nf" by (simp add: list_all_iff)
  from j have ne: "fs \<noteq> []" by auto
  have "mul_t3 [?W] [fs] = Inr (map2 (\<lambda>m f. map2 (\<lambda>r x. map (\<lambda>y. hd r * y) x) m f) [?W] [fs])"
    by (rule mul_t3_ok) auto
  then have m: "mul_t3 [?W] [fs] = Inr [map2 (\<lambda>r x. map (\<lambda>y. hd r * y) x) ?W fs]" by simp
  have "sum_dim1 (map2 (\<lambda>r x. map (\<lambda>y. hd r * y) x) ?W fs)
      = map (\<lambda>k. \<Sum>s\<leftarrow>[0..<length fs]. hd (?W ! s) * fs ! s ! k) [0..<nf]"
    by (rule sum_dim1_weighted) (simp_all add: ne r)
  also have "\<dots> = map (\<lambda>k. \<Sum>s\<leftarrow>[0..<length fs]. (if s = j then 1 else 0) * fs ! s ! k) [0..<nf]"
    by (intro map_cong [OF refl] arg_cong [where f = sum_list]) simp
  also have "\<dots> = map (\<lambda>k. fs ! j ! k) [0..<nf]"
    using j by (simp add: one_hot_sum)
  also have "\<dots> = fs ! j"
    using r [of "fs ! j"] j map_nth [of "fs ! j"] by simp
  finally show ?thesis by (simp add: weighted_context_def m)
qed

text \<open>
  Claim C3.  On every valid input the context returned by the forward pass is, for each
  example, the sum of the slot vectors weighted by the returned attention weights.  So
  when the returned weights of an example are one-hot, its context is that slot's feature
  vector; and line 35, run on one-hot weights over any number of slots, returns exactly
  the selected slot.
\<close>

theorem context_weighted_sum:
  assumes v: "valid_input nf hdim features hidden"
  shows "(\<exists>context aw.
           attention_forward (BahdanauAttention nf hdim 1 pW pU pv) features hidden
             = Inr (context, W2 aw) \<and>
           length context = length features \<and>
           (\<forall>b<length features.
              context ! b
                = map (\<lambda>k. \<Sum>s\<leftarrow>[0..<length (features ! b)]. aw ! b ! s * features ! b ! s ! k)
                      [0..<nf] \<and>
              (\<forall>j<length (features ! b).
                 aw ! b = map (\<lambda>s. if s = j then 1 else 0) [0..<length (features ! b)] \<longrightarrow>
                 context ! b = features ! b ! j))) \<and>
         (\<forall>fs j. j < length fs \<and> list_all (\<lambda>x. length x = nf) fs \<longrightarrow>
            weighted_context [map (\<lambda>s. [if s = j then 1 else 0]) [0..<length fs]] [fs]
              = Inr [fs ! j])"
proof -
  let ?a = "BahdanauAttention nf hdim 1 pW pU pv"
  let ?sc = "scores ?a features hidden"
  let ?aw = "map (\<lambda>sc. map hd (softmax_dim1 sc)) ?sc"
  let ?ctx = "map2 (\<lambda>sc f. sum_dim1 (map2 (\<lambda>r x. map (\<lambda>y. hd r * y) x) (softmax_dim1 sc) f))
               ?sc features"
  have v': "valid_input (num_features ?a) (hidden_dim ?a) features hidden" using v by simp
  have od: "output_dim ?a = 1" by simp
  from v have len: "length hidden = length features" by (simp add: valid_input_def)
  have fwd: "attention_forward ?a features hidden = Inr (?ctx, W2 ?aw)"
    by (rule attention_forward_valid) (simp_all add: v)
  have per: "?ctx ! b
        = map (\<lambda>k. \<Sum>s\<leftarrow>[0..<length (features ! b)]. ?aw ! b ! s * features ! b ! s ! k) [0..<nf] \<and>
      (\<forall>j<length (features ! b).
         ?aw ! b = map (\<lambda>s. if s = j then 1 else 0) [0..<length (features ! b)] \<longrightarrow>
         ?ctx ! b = features ! b ! j)" if b: "b < length features" for b
  proof -
    let ?f = "features ! b" and ?s = "softmax_dim1 (?sc ! b)"
    from v b have ne: "?f \<noteq> []" and rect: "\<And>x. x \<in> set ?f \<Longrightarrow> length x = nf"
      by (auto simp: valid_input_def list_all_iff)
    have slen: "length ?s = length ?f"
      using scores_shape(2) [OF wf_BahdanauAttention od v' b] by simp
    have awb: "?aw ! b = map hd ?s" using b len by simp
    have "?ctx ! b = sum_dim1 (map2 (\<lambda>r x. map (\<lambda>y. hd r * y) x) ?s ?f)"
      using b len by simp
    also have "\<dots> = map (\<lambda>k. \<Sum>s\<leftarrow>[0..<length ?f]. hd (?s ! s) * ?f ! s ! k) [0..<nf]"
      by (rule sum_dim1_weighted) (use slen ne rect in simp_all)
    also have "\<dots> = map (\<lambda>k. \<Sum>s\<leftarrow>[0..<length ?f]. ?aw ! b ! s * ?f ! s ! k) [0..<nf]"
      unfolding awb
      by (intro map_cong [OF refl] arg_cong [where f = sum_list]) (use slen in simp)
    finally have sum: "?ctx ! b
        = map (\<lambda>k. \<Sum>s\<leftarrow>[0..<length ?f]. ?aw ! b ! s * ?f ! s ! k) [0..<nf]" .
    have "?ctx ! b = ?f ! j"
      if j: "j < length ?f" and hot: "?aw ! b = map (\<lambda>s. if s = j then 1 else 0) [0..<length ?f]"
      for j
    proof -
      have "?ctx ! b = map (\<lambda>k. \<Sum>s\<leftarrow>[0..<length ?f]. (if s = j then 1 else 0) * ?f ! s ! k) [0..<nf]"
        unfolding sum hot
        by (intro map_cong [OF refl] arg_cong [where f = sum_list]) simp
      also have "\<dots> = map (\<lambda>k. ?f ! j ! k) [0..<nf]" using j by (simp add: one_hot_sum)
      also have "\<dots> = ?f ! j" using rect [of "?f ! j"] j map_nth [of "?f ! j"] by simp
      finally show ?thesis .
    qed
    with sum show ?thesis by blast
  qed
  have "length ?ctx = length features" using len by simp
  with fwd per have first: "\<exists>context aw.
           attention_forward ?a features hidden = Inr (context, W2 aw) \<and>
           length context = length features \<and>
           (\<forall>b<length features.
              context ! b
                = map (\<lambda>k. \<Sum>s\<leftarrow>[0..<length (features ! b)]. aw ! b ! s * features ! b ! s ! k)
                      [0..<nf] \<and>
              (\<forall>j<length (features ! b).
                 aw ! b = map (\<lambda>s. if s = j then 1 else 0) [0..<length (features ! b)] \<longrightarrow>
                 context ! b = features ! b ! j))"
    by blast
  show ?thesis using first weighted_context_one_hot by blast
qed

lemmas tensor_defs = linear_t3_def linear_mat_def linear_vec_def linear_out_def add_t3_def mul_t3_def
  broadcast2_def softmax_dim1_def sum_dim1_def squeeze_dim2_def weighted_context_def
  Linear_def BahdanauAttention_def zero_params_def

lemma upt_2: "[0..<2] = [0, 1]" by (simp add: upt_rec)
lemma upt_3: "[0..<3] = [0, 1, 2]" by (simp add: upt_rec)

theorem context_weighted_sum_witness:
  "valid_input 3 1 features_3 zero_state \<and>
   attention_forward (BahdanauAttention 3 1 1 zero_params zero_params zero_params)
     features_3 zero_state = Inr ([[1, 2, 3]], W2 [[1]]) \<and>
   weighted_context [[[0], [1]]] [[[1, 2, 3], [4, 5, 6]]] = Inr [[4, 5, 6]]"
proof -
  have v: "valid_input 3 1 features_3 zero_state"
    by (simp add: valid_input_def features_3_def zero_state_def)
  note T = context_weighted_sum [OF v, of zero_params zero_params zero_params]
  from T have "(1::nat) < length [[1, 2, 3], [4, 5, 6::real]] \<and>
        list_all (\<lambda>x. length x = 3) [[1, 2, 3], [4, 5, 6::real]] \<longrightarrow>
      weighted_context
        [map (\<lambda>s. [if s = 1 then 1 else 0]) [0..<length [[1, 2, 3], [4, 5, 6::real]]]]
        [[[1, 2, 3], [4, 5, 6]]] = Inr [[[1, 2, 3], [4, 5, 6]] ! 1]"
    by blast
  then have hot: "weighted_context [[[0], [1]]] [[[1, 2, 3], [4, 5, 6]]] = Inr [[4, 5, 6]]"
    by (simp add: upt_2)
  have fwd: "attention_forward (BahdanauAttention 3 1 1 zero_params zero_params zero_params)
     features_3 zero_state = Inr ([[1, 2, 3]], W2 [[1]])"
    by (simp add: attention_forward_def features_3_def zero_state_def tensor_defs upt_3)
  from v fwd hot show ?thesis by blast
qed

section \<open>Where a shape mismatch surfaces\<close>

lemma bindE_Inl_iff: "bindE m f = Inl e \<longleftrightarrow> m = Inl e \<or> (\<exists>x. m = Inr x \<and> f x = Inl e)"
  by (cases m) simp_all

lemma mapE_Inl_D: "mapE f xs = Inl e \<Longrightarrow> \<exists>x\<in>set xs. f x = Inl e"
  by (induction xs) (auto simp: bindE_Inl_iff)

lemma mapE_Inr_D: "mapE f xs = Inr ys \<Longrightarrow> x \<in> set xs \<Longrightarrow> \<exists>y. f x = Inr y"
  by (induction xs arbitrary: ys) (auto simp: bindE_Inr_iff)

lemma linear_t3_Inl: "linear_t3 L t = Inl e \<Longrightarrow> e = ShapeError"
  unfolding linear_t3_def linear_mat_def
  by (auto dest!: mapE_Inl_D simp: linear_vec_def split: if_splits)

lemma linear_t3_Inr_D:
  "linear_t3 L t = Inr t' \<Longrightarrow> m \<in> set t \<Longrightarrow> r \<in> set m \<Longrightarrow> length r = in_features L"
proof -
  assume "linear_t3 L t = Inr t'" "m \<in> set t" "r \<in> set m"
  then obtain m' where "linear_mat L m = Inr m'"
    unfolding linear_t3_def by (auto dest: mapE_Inr_D)
  with \<open>r \<in> set m\<close> obtain r' where "linear_vec L r = Inr r'"
    unfolding linear_mat_def by (auto dest: mapE_Inr_D)
  then show ?thesis by (simp add: linear_vec_def split: if_splits)
qed

lemma broadcast2_Inl:
  "(\<And>x y e. f x y = Inl e \<Longrightarrow> e = ShapeError) \<Longrightarrow> broadcast2 f xs ys = Inl e \<Longrightarrow> e = ShapeError"
  unfolding broadcast2_def by (auto dest!: mapE_Inl_D split: if_splits)

lemma add_t3_Inl: "add_t3 x y = Inl e \<Longrightarrow> e = ShapeError"
  unfolding add_t3_def
  by (erule broadcast2_Inl [rotated], erule broadcast2_Inl [rotated], erule broadcast2_Inl [rotated]) simp

lemma mul_t3_Inl: "mul_t3 x y = Inl e \<Longrightarrow> e = ShapeError"
  unfolding mul_t3_def
  by (erule broadcast2_Inl [rotated], erule broadcast2_Inl [rotated], erule broadcast2_Inl [rotated]) simp

lemma attention_forward_Inl: "attention_forward a features hidden = Inl e \<Longrightarrow> e = ShapeError"
  unfolding attention_forward_def weighted_context_def Let_def
  by (auto simp: bindE_Inl_iff dest: linear_t3_Inl add_t3_Inl mul_t3_Inl)

lemma attention_forward_Inr_shapes:
  assumes "attention_forward a features hidden = Inr res"
  shows "\<forall>m\<in>set features. \<forall>r\<in>set m. length r = in_features (W_a a)"
    and "\<forall>h\<in>set hidden. length h = in_features (U_a a)"
proof -
  from assms obtain A1 A2 where 1: "linear_t3 (W_a a) features = Inr A1"
    and 2: "linear_t3 (U_a a) (map (\<lambda>h. [h]) hidden) = Inr A2"
    unfolding attention_forward_def Let_def by (auto simp: bindE_Inr_iff)
  show "\<forall>m\<in>set features. \<forall>r\<in>set m. length r = in_features (W_a a)"
    using linear_t3_Inr_D [OF 1] by blast
  show "\<forall>h\<in>set hidden. length h = in_features (U_a a)"
  proof
    fix h assume "h \<in> set hidden"
    then have "[h] \<in> set (map (\<lambda>h. [h]) hidden)" by simp
    from linear_t3_Inr_D [OF 2 this] show "length h = in_features (U_a a)" by simp
  qed
qed

text \<open>
  Claim C7, as amended.  The constructor cannot reject a mismatch: it receives the sizes
  only and has no failing branch.  Whenever a slot vector of the features has a length
  other than num_features, or a hidden vector a length other than hidden_dim, it is the
  forward pass that raises, with the shape error of the linear layer.
\<close>

theorem shape_mismatch_raised_by_forward:
  assumes "(\<exists>m\<in>set features. \<exists>r\<in>set m. length r \<noteq> nf) \<or> (\<exists>h\<in>set hidden. length h \<noteq> hdim)"
  shows "attention_forward (BahdanauAttention nf hdim odim pW pU pv) features hidden = Inl ShapeError"
proof (cases "attention_forward (BahdanauAttention nf hdim odim pW pU pv) features hidden")
  case (Inl e)
  then show ?thesis by (simp add: attention_forward_Inl)
next
  case (Inr res)
  from attention_forward_Inr_shapes [OF Inr] assms have False
    by (auto simp: BahdanauAttention_def Linear_def)
  then show ?thesis ..
qed

theorem shape_mismatch_raised_by_forward_witness:
  "((\<exists>m\<in>set features_3. \<exists>r\<in>set m. length r \<noteq> 2) \<or> (\<exists>h\<in>set zero_state. length h \<noteq> 1)) \<and>
   attention_forward (BahdanauAttention 2 1 1 zero_params zero_params zero_params)
     features_3 zero_state = Inl ShapeError"
proof -
  have m: "(\<exists>m\<in>set features_3. \<exists>r\<in>set m. length r \<noteq> 2) \<or> (\<exists>h\<in>set zero_state. length h \<noteq> 1)"
    by (simp add: features_3_def)
  show ?thesis using m shape_mismatch_raised_by_forward [OF m] by blast
qed

text \<open>
  Claim C7 as stated fails: an attention module for feature size 2 is constructed without
  complaint, and features of size 3 first fail in the forward pass.
\<close>

theorem construction_accepts_mismatch_counterexample:
  "attention_2_1 = BahdanauAttention 2 1 1 zero_params zero_params zero_params \<and>
   attention_forward attention_2_1 features_3 zero_state = Inl ShapeError"
  by (simp add: attention_forward_def attention_2_1_def features_3_def zero_state_def tensor_defs)

section \<open>Hidden-state initialisation\<close>

lemmas decoder_defs = DecoderLSTM_def LSTMCell_def end_decoder_def end_bias_params_def
  eval_dropout_def token_value_def two_slots_def zero_state_def

lemma init_hidden_None: "init_hidden d features = Inr r \<Longrightarrow> r = PyNone"
  by (auto simp: init_hidden_def Let_def bindE_Inr_iff)

lemma unpack_init_hidden: "bindE (init_hidden d features) (\<lambda>r. bindE (unpack2 r) f) = 
   bindE (init_hidden d features) (\<lambda>r. Inl TypeError)"
  by (cases "init_hidden d features") (auto dest: init_hidden_None)

lemma greedy_search_raises: "greedy_search d features max_sentence \<noteq> Inr res"
  unfolding greedy_search_def unpack_init_hidden by (simp add: bindE_Inr_iff)

lemma forward_raises: "forward d captions features sample_prob draws \<noteq> Inr res"
  unfolding forward_def unpack_init_hidden by (simp add: bindE_Inr_iff)

lemma init_hidden_end_decoder: "init_hidden end_decoder two_slots = Inr PyNone"
  by (simp add: init_hidden_def mean_dim1_def decoder_defs tensor_defs)

text \<open>
  Claim C4 against the code at hand.  \<open>init_hidden\<close> never returns a pair
  \<open>(h0, c0)\<close>: it computes the \<open>init_h\<close> projection of the mean, applies
  \<open>init_c\<close> nowhere and returns \<open>None\<close>, here on a feature map with two slots.
\<close>

theorem init_hidden_returns_none:
  "init_hidden d features \<noteq> Inr (PyTuple2 h0 c0) \<and>
   init_hidden end_decoder two_slots = Inr PyNone"
  using init_hidden_None [of d features "PyTuple2 h0 c0"] init_hidden_end_decoder by auto

text \<open>
  Claim C10 against the code at hand.  \<open>greedy_search\<close> unpacks the \<open>None\<close> of
  \<open>init_hidden\<close> before its loop starts, so the call raises TypeError and returns
  neither a token list nor a list of weights.
\<close>

theorem greedy_search_raises_type_error:
  "greedy_search end_decoder two_slots 20 = Inl TypeError"
  by (simp add: greedy_search_def init_hidden_end_decoder)

section \<open>Persistence of the vocabulary index\<close>

text \<open>
  Claim C8.  When \<open>process_df\<close> has built the word-to-index dictionary with the
  minimum count and \<open>save\<close> has written the embedder, \<open>load\<close> of the same path
  returns an embedder whose dictionary maps every word of the saved dictionary to the
  same index.
\<close>

theorem vocabulary_round_trip:
  assumes "process_df builder self0 df = (df', self)" and "save self path fs = Inr fs'"
  shows "load path fs' = Inr self \<and>
         w2i self = Some (make_dict builder (tokenize_df builder df) (min_count self0)) \<and>
         (\<exists>loaded before after. load path fs' = Inr loaded \<and> w2i self = Some before \<and>
            w2i loaded = Some after \<and> (\<forall>word i. before word = Some i \<longrightarrow> after word = Some i))"
proof -
  from assms(2) have fs': "fs' = fs\<lparr>files := (files fs)(path \<mapsto> self)\<rparr>"
    by (simp add: save_def split: if_splits)
  then have l: "load path fs' = Inr self" by (simp add: load_def)
  from assms(1) have w: "w2i self = Some (make_dict builder (tokenize_df builder df) (min_count self0))"
    by (auto simp: process_df_def Let_def)
  from l w show ?thesis by auto
qed

theorem vocabulary_round_trip_witness:
  "process_df plain_builder fresh_embedder [''a cat''] = ([''a cat''], fresh_embedder\<lparr>w2i := Some three_words\<rparr>) \<and>
   save (fresh_embedder\<lparr>w2i := Some three_words\<rparr>) ''emb.pkl'' empty_fs
     = Inr (empty_fs\<lparr>files := [''emb.pkl'' \<mapsto> fresh_embedder\<lparr>w2i := Some three_words\<rparr>]\<rparr>) \<and>
   load ''emb.pkl'' (empty_fs\<lparr>files := [''emb.pkl'' \<mapsto> fresh_embedder\<lparr>w2i := Some three_words\<rparr>]\<rparr>)
     = Inr (fresh_embedder\<lparr>w2i := Some three_words\<rparr>) \<and>
   w2i (fresh_embedder\<lparr>w2i := Some three_words\<rparr>) = Some three_words"
proof -
  have p: "process_df plain_builder fresh_embedder [''a cat'']
      = ([''a cat''], fresh_embedder\<lparr>w2i := Some three_words\<rparr>)"
    by (simp add: process_df_def plain_builder_def)
  have s: "save (fresh_embedder\<lparr>w2i := Some three_words\<rparr>) ''emb.pkl'' empty_fs
     = Inr (empty_fs\<lparr>files := [''emb.pkl'' \<mapsto> fresh_embedder\<lparr>w2i := Some three_words\<rparr>]\<rparr>)"
    by (simp add: save_def empty_fs_def)
  from vocabulary_round_trip [OF p s] p s show ?thesis by simp
qed

section \<open>The training loop\<close>

lemma forward_step_sample_prob:
  "forward_step d embeds features t draw (st\<lparr>st_sample_prob := p\<rparr>)
     = forward_step d embeds features t draw st"
  by (simp add: forward_step_def)

lemma forward_loop_sample_prob:
  "bindE (forward_loop d embeds features draws ts (st\<lparr>st_sample_prob := p\<rparr>))
         (\<lambda>s. Inr (st_outputs s, st_attention_weights s))
   = bindE (forward_loop d embeds features draws ts st)
         (\<lambda>s. Inr (st_outputs s, st_attention_weights s))"
  by (cases ts) (simp_all add: forward_step_sample_prob)

text \<open>
  Claim C9.  The \<open>sample_prob\<close> argument has no influence: two calls of
  \<open>forward\<close> that differ only in it give the same result, and so do two runs of the
  loop from states that differ only in it, over any steps and any random draws.
\<close>

theorem sample_prob_has_no_influence:
  "forward d captions features p draws = forward d captions features q draws \<and>
   bindE (forward_loop d embeds features draws ts (st\<lparr>st_sample_prob := p\<rparr>))
         (\<lambda>s. Inr (st_outputs s, st_attention_weights s))
   = bindE (forward_loop d embeds features draws ts (st\<lparr>st_sample_prob := q\<rparr>))
         (\<lambda>s. Inr (st_outputs s, st_attention_weights s))"
proof -
  have rec: "\<lparr>st_h = h, st_c = c, st_word_embed = w, st_outputs = outs,
              st_attention_weights = aws, st_sample_prob = x\<rparr>
      = \<lparr>st_h = h, st_c = c, st_word_embed = w, st_outputs = outs,
              st_attention_weights = aws, st_sample_prob = 0\<rparr>\<lparr>st_sample_prob := x\<rparr>"
    for h c w outs aws x by simp
  have "forward d captions features x draws = forward d captions features 0 draws" for x
    unfolding forward_def Let_def
    by (subst rec) (simp only: forward_loop_sample_prob)
  then have "forward d captions features p draws = forward d captions features q draws"
    by metis
  then show ?thesis by (simp add: forward_loop_sample_prob)
qed

lemma use_sampling_at_0: "0 \<le> draw \<Longrightarrow> use_sampling_at 0 draw = False"
  by (simp add: use_sampling_at_def)

lemma mapE_nth: "mapE f xs = Inr ys \<Longrightarrow> i < length xs \<Longrightarrow> f (xs ! i) = Inr (ys ! i)"
proof (induction xs arbitrary: ys i)
  case Nil
  then show ?case by simp
next
  case (Cons x xs)
  then show ?case by (cases i) (auto simp: bindE_Inr_iff)
qed

lemma mapE_length: "mapE f xs = Inr ys \<Longrightarrow> length ys = length xs"
  by (induction xs arbitrary: ys) (auto simp: bindE_Inr_iff)

text \<open>
  Claim C5.  At step 0 the embedding fed to the cell is the ground-truth embedding of
  position 0 of the captions, whatever the random draw (a number in [0, 1)), the
  embedding left in \<open>word_embed\<close> and the sampling probability; the whole step is the
  same for any two draws.  Position 0 of the embedded captions is the embedding of each
  caption's first token.
\<close>

theorem first_step_uses_ground_truth:
  assumes "0 \<le> draw" and "0 \<le> draw'"
  shows "input_embedding embeds 0 draw we = Some (map (\<lambda>e. e ! 0) embeds) \<and>
         forward_step d embeds features 0 draw (st\<lparr>st_word_embed := we, st_sample_prob := p\<rparr>)
           = forward_step d embeds features 0 draw' (st\<lparr>st_word_embed := we', st_sample_prob := p'\<rparr>) \<and>
         (mapE (mapE (embedding d)) captions = Inr embeds \<longrightarrow>
            (\<forall>b<length captions. captions ! b \<noteq> [] \<longrightarrow>
               embedding d (captions ! b ! 0) = Inr (map (\<lambda>e. e ! 0) embeds ! b)))"
proof -
  have 1: "input_embedding embeds 0 draw we = Some (map (\<lambda>e. e ! 0) embeds)"
    using assms(1) by (simp add: input_embedding_def use_sampling_at_0)
  have 2: "forward_step d embeds features 0 draw (st\<lparr>st_word_embed := we, st_sample_prob := p\<rparr>)
           = forward_step d embeds features 0 draw' (st\<lparr>st_word_embed := we', st_sample_prob := p'\<rparr>)"
    using assms by (simp add: forward_step_def input_embedding_def use_sampling_at_0)
  have 3: "embedding d (captions ! b ! 0) = Inr (map (\<lambda>e. e ! 0) embeds ! b)"
    if e: "mapE (mapE (embedding d)) captions = Inr embeds" and b: "b < length captions"
      and ne: "captions ! b \<noteq> []" for b
  proof -
    from mapE_nth [OF e b] have row: "mapE (embedding d) (captions ! b) = Inr (embeds ! b)" .
    from ne have "0 < length (captions ! b)" by simp
    from mapE_nth [OF row this] have "embedding d (captions ! b ! 0) = Inr (embeds ! b ! 0)" .
    moreover have "length embeds = length captions" using e by (rule mapE_length)
    ultimately show ?thesis using b by simp
  qed
  from 1 2 3 show ?thesis by blast
qed

lemma sigmoid_0 [simp]: "sigmoid 0 = 1 / 2"
  by (simp add: sigmoid_def)

lemma attention_two_slots:
  "attention_forward (attention end_decoder) two_slots [[0]] = Inr ([[3 / 2]], W2 [[1 / 2, 1 / 2]])"
  by (simp add: attention_forward_def decoder_defs tensor_defs)

lemma upt_4: "[0..<4] = [0, 1, 2, 3]" by (simp add: upt_rec)

lemma replicate_2: "replicate 2 x = [x, x]" by (simp add: numeral_2_eq_2)
lemma replicate_3: "replicate 3 x = [x, x, x]" by (simp add: numeral_3_eq_3)

lemma lstm_end_decoder:
  "lstm_forward (lstm end_decoder) [[x, y]] ([[0]], [[0]]) = Inr ([[0]], [[0]])"
  by (simp add: lstm_forward_def lstm_vec_def decoder_defs tensor_defs upt_2 upt_4 Let_def)

lemma drop_end_decoder: "drop_layer end_decoder n x = x"
  by (simp add: decoder_defs)

lemma fc_end_decoder: "linear_mat (fc end_decoder) [[0]] = Inr [[0, 1, 0]]"
  by (simp add: decoder_defs tensor_defs upt_3)

lemma step0:
  "forward_step end_decoder [[[2], [0]]] two_slots 0 (9 / 10) start_state = Inr after_step0"
  by (simp add: forward_step_def start_state_def after_step0_def input_embedding_def
      use_sampling_at_def attention_two_slots lstm_end_decoder fc_end_decoder cat_dim1_def
      assign_step_def assign_weights_def zeros3_def zero_state_def drop_end_decoder
      replicate_2 replicate_3)


theorem first_step_uses_ground_truth_witness:
  "(0::real) \<le> 9 / 10 \<and> (0::real) \<le> 0 \<and>
   input_embedding [[[2], [0]]] 0 (9 / 10) None = Some [[2]] \<and>
   forward_step end_decoder [[[2], [0]]] two_slots 0 0
     (start_state\<lparr>st_word_embed := Some [[7]], st_sample_prob := 1\<rparr>) = Inr after_step0 \<and>
   embedding end_decoder 2 = Inr [2]"
proof -
  have a: "(0::real) \<le> 9 / 10" and b: "(0::real) \<le> 0" by simp_all
  note T = first_step_uses_ground_truth [OF a b, where embeds = "[[[2], [0]]]" and we = None
      and d = end_decoder and features = two_slots and st = start_state and p = 0
      and we' = "Some [[7]]" and p' = 1 and captions = "[[2, 0]]"]
  have e: "mapE (mapE (embedding end_decoder)) [[2, 0]] = Inr [[[2], [0]]]"
    by (simp add: embedding_def decoder_defs)
  have s: "start_state\<lparr>st_word_embed := None, st_sample_prob := 0\<rparr> = start_state"
    by (simp add: start_state_def)
  from T have "input_embedding [[[2], [0]]] 0 (9 / 10) None = Some [[2]]" by simp
  moreover from T s step0 have "forward_step end_decoder [[[2], [0]]] two_slots 0 0
     (start_state\<lparr>st_word_embed := Some [[7]], st_sample_prob := 1\<rparr>) = Inr after_step0"
    by simp
  moreover from T e have "embedding end_decoder 2 = Inr [2]" by simp
  ultimately show ?thesis by simp
qed

lemma input_embedding_sampling:
  "0 < t \<Longrightarrow> draw < 1 / 2 \<Longrightarrow> input_embedding embeds t draw we = we"
  by (simp add: input_embedding_def use_sampling_at_def)

lemma argmax_aux_shift:
  "argmax_aux best (bv - L) i (map (\<lambda>x. x - L) xs) = argmax_aux best bv i xs"
  by (induction xs arbitrary: best bv i) simp_all

lemma topk1_log_softmax: "topk1 (log_softmax xs) = topk1 xs"
  by (cases xs) (simp_all add: topk1_def log_softmax_def argmax_aux_shift)

lemma topk1_end: "0 < x \<Longrightarrow> topk1 [0, x, 0] = Inr 1"
  by (simp add: topk1_def)

lemma sampled_end_decoder: "sampled_embedding end_decoder [[0, 1, 0]] = Inr [[1]]"
  by (simp add: sampled_embedding_def topk1_log_softmax topk1_end embedding_def decoder_defs)

text \<open>
  Claim C6 against the code at hand, for a caption [2, 0] and the draws 0.9 and 0.1.
  Step 0 feeds the ground truth and leaves its embedding [[2]] in \<open>word_embed\<close>; its
  output is [[0, 1, 0]].  At step 1 the coin flip succeeds, and the embedding fed is still
  [[2]], the ground truth of position 0, while the token sampled from the output of step 0
  is the end token, with embedding [[1]].
\<close>

theorem stale_embedding_fed_at_step1:
  "forward_step end_decoder [[[2], [0]]] two_slots 0 (9 / 10) start_state = Inr after_step0 \<and>
   st_outputs after_step0 = [[[0, 1, 0], [0, 0, 0]]] \<and>
   use_sampling_at 1 (1 / 10) = True \<and>
   input_embedding [[[2], [0]]] 1 (1 / 10) (st_word_embed after_step0) = Some [[2]] \<and>
   sampled_embedding end_decoder [[0, 1, 0]] = Inr [[1]]"
  by (simp add: step0 sampled_end_decoder input_embedding_def use_sampling_at_def after_step0_def)

end
